theory Spec2Isabelle
  imports Complex_Main
begin

section \<open>Python values, errors and built-ins used by the explainer\<close>

text \<open>
  The scenario records of \<^verbatim>\<open>heat_pump_explainer.py\<close> are JSON objects. A scalar of such a
  record is a \<open>pyval\<close>. A Python \<open>float\<close> is modelled by the rational it denotes (no
  rounding error, no overflow, no infinities); an \<open>int\<close> is kept apart from a \<open>float\<close>
  because \<open>str()\<close> prints them differently. A Python \<open>str\<close> is a \<open>string\<close> whose characters
  are the code points below 256; the only non-ASCII characters of the source, the degree
  sign (U+00B0) and the pound sign (U+00A3), are in that range.
\<close>

datatype pyval = PNone | PBool bool | PInt int | PFloat rat | PStr string

datatype py_error =
  KeyError string | TypeError | ValueError | IndexError | AttributeError | CollaboratorError

type_synonym pydict = "string \<rightharpoonup> pyval"

definition ebind :: "py_error + 'a \<Rightarrow> ('a \<Rightarrow> py_error + 'b) \<Rightarrow> py_error + 'b" where
  "ebind m f = (case m of Inl e \<Rightarrow> Inl e | Inr v \<Rightarrow> f v)"

text \<open>\<open>d[k]\<close> and \<open>d.get(k, default)\<close>.\<close>

definition py_item :: "pydict \<Rightarrow> string \<Rightarrow> py_error + pyval" where
  "py_item d k = (case d k of None \<Rightarrow> Inl (KeyError k) | Some v \<Rightarrow> Inr v)"

definition py_get :: "pydict \<Rightarrow> string \<Rightarrow> pyval \<Rightarrow> pyval" where
  "py_get d k dflt = (case d k of None \<Rightarrow> dflt | Some v \<Rightarrow> v)"

text \<open>The numeric reading of a value: \<open>bool\<close> is a subclass of \<open>int\<close>.\<close>

fun num_of :: "pyval \<Rightarrow> rat option" where
  "num_of (PBool b) = Some (if b then 1 else 0)"
| "num_of (PInt i) = Some (of_int i)"
| "num_of (PFloat r) = Some r"
| "num_of PNone = None"
| "num_of (PStr s) = None"

text \<open>Whether a value is a number, and the number it is (0 for what is not a number).\<close>

definition is_num :: "pyval \<Rightarrow> bool" where
  "is_num v = (num_of v \<noteq> None)"

definition numv :: "pyval \<Rightarrow> rat" where
  "numv v = (case num_of v of Some x \<Rightarrow> x | None \<Rightarrow> 0)"

fun is_intlike :: "pyval \<Rightarrow> bool" where
  "is_intlike (PBool b) = True"
| "is_intlike (PInt i) = True"
| "is_intlike v = False"

text \<open>Truth value testing (\<open>if x\<close>, \<open>x and y\<close>).\<close>

fun truthy :: "pyval \<Rightarrow> bool" where
  "truthy PNone = False"
| "truthy (PBool b) = b"
| "truthy (PInt i) = (i \<noteq> 0)"
| "truthy (PFloat r) = (r \<noteq> 0)"
| "truthy (PStr s) = (s \<noteq> [])"

text \<open>
  Ordering comparisons: two numbers compare by value, two strings by code points, anything
  else raises \<open>TypeError\<close>.
\<close>

fun str_lt :: "string \<Rightarrow> string \<Rightarrow> bool" where
  "str_lt [] [] = False"
| "str_lt [] (y # ys) = True"
| "str_lt (x # xs) [] = False"
| "str_lt (x # xs) (y # ys) =
     (if (of_char x :: nat) < of_char y then True
      else if (of_char y :: nat) < of_char x then False
      else str_lt xs ys)"

definition py_lt :: "pyval \<Rightarrow> pyval \<Rightarrow> py_error + bool" where
  "py_lt a b =
     (case (num_of a, num_of b) of
        (Some x, Some y) \<Rightarrow> Inr (x < y)
      | _ \<Rightarrow> (case (a, b) of (PStr s, PStr t) \<Rightarrow> Inr (str_lt s t) | _ \<Rightarrow> Inl TypeError))"

definition py_gt :: "pyval \<Rightarrow> pyval \<Rightarrow> py_error + bool" where
  "py_gt a b = py_lt b a"

definition py_ge :: "pyval \<Rightarrow> pyval \<Rightarrow> py_error + bool" where
  "py_ge a b =
     (case (num_of a, num_of b) of
        (Some x, Some y) \<Rightarrow> Inr (y \<le> x)
      | _ \<Rightarrow> (case (a, b) of (PStr s, PStr t) \<Rightarrow> Inr (\<not> str_lt s t) | _ \<Rightarrow> Inl TypeError))"

text \<open>\<open>a and b\<close> on conditions that may raise: \<open>b\<close> is evaluated only when \<open>a\<close> is true.\<close>

definition py_and :: "py_error + bool \<Rightarrow> py_error + bool \<Rightarrow> py_error + bool" where
  "py_and a b = ebind a (\<lambda>x. if x then b else Inr False)"

text \<open>
  Arithmetic. The result is an \<open>int\<close> when both operands are, a \<open>float\<close> otherwise; true
  division always gives a \<open>float\<close>. Every use in the source has a numeric operand on one
  side at least, and the result of a sequence repetition (\<open>int * str\<close>) could only reach
  \<open>round\<close>, which raises \<open>TypeError\<close> on it, so non-numeric operands raise here.
\<close>

definition py_arith :: "(rat \<Rightarrow> rat \<Rightarrow> rat) \<Rightarrow> pyval \<Rightarrow> pyval \<Rightarrow> py_error + pyval" where
  "py_arith f a b =
     (case (num_of a, num_of b) of
        (Some x, Some y) \<Rightarrow>
          Inr (if is_intlike a \<and> is_intlike b then PInt \<lfloor>f x y\<rfloor> else PFloat (f x y))
      | _ \<Rightarrow> Inl TypeError)"

definition py_sub :: "pyval \<Rightarrow> pyval \<Rightarrow> py_error + pyval" where
  "py_sub = py_arith (\<lambda>x y. x - y)"



text \<open>
  Rounding to the nearest integer, ties to the even one, as \<open>round\<close> and the \<open>f\<close>
  format do. The magnitude is rounded and the sign restored (the rule is symmetric).
\<close>

definition round_half_even_nonneg :: "rat \<Rightarrow> int" where
  "round_half_even_nonneg x =
     (let f = \<lfloor>x\<rfloor>; d = x - of_int f
      in if d < 1 / 2 then f else if 1 / 2 < d then f + 1 else if even f then f else f + 1)"

definition round_half_even :: "rat \<Rightarrow> int" where
  "round_half_even x =
     (if x < 0 then - round_half_even_nonneg (- x) else round_half_even_nonneg x)"


subsection \<open>Printing numbers\<close>

definition digit_char :: "nat \<Rightarrow> char" where
  "digit_char d = ''0123456789'' ! (d mod 10)"

fun show_nat_fuel :: "nat \<Rightarrow> nat \<Rightarrow> string" where
  "show_nat_fuel 0 n = [digit_char n]"
| "show_nat_fuel (Suc k) n =
     (if n < 10 then [digit_char n] else show_nat_fuel k (n div 10) @ [digit_char n])"

text \<open>The decimal digits of a natural number (\<open>n\<close> has at most \<open>n\<close> digits beyond the first).\<close>

definition show_nat :: "nat \<Rightarrow> string" where
  "show_nat n = show_nat_fuel n n"

definition show_int :: "int \<Rightarrow> string" where
  "show_int i = (if i < 0 then ''-'' @ show_nat (nat (- i)) else show_nat (nat i))"

text \<open>\<open>k\<close> decimal digits of \<open>m\<close>, padded with zeros on the left.\<close>

fun pad_digits :: "nat \<Rightarrow> nat \<Rightarrow> string" where
  "pad_digits 0 m = []"
| "pad_digits (Suc k) m = pad_digits k (m div 10) @ [digit_char m]"

text \<open>
  The format \<open>.nf\<close> of a number: the value rounded to \<open>n\<close> decimals, ties to even, with
  the sign of the value (\<open>-0.04\<close> prints as \<open>-0.0\<close>).
\<close>

definition fmt_fixed :: "nat \<Rightarrow> rat \<Rightarrow> string" where
  "fmt_fixed n r =
     (let m = nat (round_half_even_nonneg (\<bar>r\<bar> * 10 ^ n))
      in (if r < 0 then ''-'' else '''') @ show_nat (m div 10 ^ n) @
         (if n = 0 then '''' else ''.'' @ pad_digits n (m mod 10 ^ n)))"

text \<open>
  \<open>format(v, '.nf')\<close>: numbers (and \<open>bool\<close>) are printed, a \<open>str\<close> raises \<open>ValueError\<close>
  (unknown format code) and \<open>None\<close> raises \<open>TypeError\<close>.
\<close>

definition py_format_f :: "nat \<Rightarrow> pyval \<Rightarrow> py_error + string" where
  "py_format_f n v =
     (case v of
        PStr s \<Rightarrow> Inl ValueError
      | PNone \<Rightarrow> Inl TypeError
      | _ \<Rightarrow> (case num_of v of Some r \<Rightarrow> Inr (fmt_fixed n r) | None \<Rightarrow> Inl TypeError))"

text \<open>
  The fractional digits of \<open>r\<close> in \<open>[0, 1)\<close>, at most \<open>k\<close> of them, stopping when the
  expansion ends.
\<close>

fun frac_digits :: "nat \<Rightarrow> rat \<Rightarrow> string" where
  "frac_digits 0 r = []"
| "frac_digits (Suc k) r =
     (if r = 0 then []
      else digit_char (nat \<lfloor>r * 10\<rfloor>) # frac_digits k (r * 10 - of_int \<lfloor>r * 10\<rfloor>))"

text \<open>
  \<open>repr\<close> of a \<open>float\<close>, on the rational it denotes: sign, integer part, a point and the
  decimal expansion (at least one digit, at most 17). This is what Python prints for the
  decimals of a telemetry record (\<open>3.0\<close>, \<open>-5.0\<close>, \<open>19.8\<close>, \<open>0.08\<close>); exponent notation, which
  Python uses below \<open>1e-4\<close> and from \<open>1e16\<close> on, is not modelled.
\<close>

definition repr_float :: "rat \<Rightarrow> string" where
  "repr_float r =
     (let a = \<bar>r\<bar>; i = \<lfloor>a\<rfloor>; f = a - of_int i
      in (if r < 0 then ''-'' else '''') @ show_nat (nat i) @ ''.'' @
         (if f = 0 then ''0'' else frac_digits 17 f))"

text \<open>\<open>str(v)\<close>, which an f-string field without a format applies.\<close>

fun py_str :: "pyval \<Rightarrow> string" where
  "py_str PNone = ''None''"
| "py_str (PBool b) = (if b then ''True'' else ''False'')"
| "py_str (PInt i) = show_int i"
| "py_str (PFloat r) = repr_float r"
| "py_str (PStr s) = s"

subsection \<open>String methods\<close>

text \<open>\<open>str.isspace\<close> on one character: the white space code points below 256.\<close>

definition py_isspace :: "char \<Rightarrow> bool" where
  "py_isspace c = ((of_char c :: nat) \<in> {9, 10, 11, 12, 13, 28, 29, 30, 31, 32, 133, 160})"



definition py_strip :: "string \<Rightarrow> string" where
  "py_strip s = rev (dropWhile py_isspace (rev (dropWhile py_isspace s)))"









text \<open>
  \<open>int(s)\<close> on a string: surrounding white space is dropped, one sign is allowed, the rest
  must be decimal digits, at least one. (Digit separators need three characters; the
  source applies \<open>int\<close> to a slice of two.)
\<close>

definition is_digit :: "char \<Rightarrow> bool" where
  "is_digit c = (48 \<le> (of_char c :: nat) \<and> (of_char c :: nat) \<le> 57)"

definition digits_value :: "string \<Rightarrow> nat" where
  "digits_value s = foldl (\<lambda>a c. 10 * a + ((of_char c :: nat) - 48)) 0 s"

definition py_int_of_str :: "string \<Rightarrow> py_error + int" where
  "py_int_of_str s =
     (case py_strip s of
        [] \<Rightarrow> Inl ValueError
      | c # cs \<Rightarrow>
          if c = CHR ''-'' \<or> c = CHR ''+'' then
            (if cs \<noteq> [] \<and> list_all is_digit cs
             then Inr ((if c = CHR ''-'' then - 1 else 1) * int (digits_value cs))
             else Inl ValueError)
          else if list_all is_digit (c # cs) then Inr (int (digits_value (c # cs)))
          else Inl ValueError)"

definition deg :: string where
  "deg = [CHR 0xB0]"


section \<open>The scenario record and the classification\<close>

text \<open>
  A scenario record is a dictionary with the keys \<open>data\<close> (the telemetry snapshot, a
  dictionary of scalars), \<open>timestamp\<close>, \<open>name\<close> and \<open>property_profile\<close> (a dictionary of
  three dictionaries). A key that is absent is \<open>None\<close> here.
\<close>

record profile =
  pf_property_details :: "pydict option"
  pf_heat_pump_specs :: "pydict option"
  pf_performance_data :: "pydict option"

record scenario =
  sc_data :: "pydict option"
  sc_timestamp :: "pyval option"
  sc_name :: "pyval option"
  sc_property_profile :: "profile option"

text \<open>The dictionary that \<open>detect_pattern\<close> returns.\<close>

record pattern =
  pattern_type :: string
  severity :: string
  confidence :: string
  trigger :: string
  is_anomaly :: bool
  category :: string

definition scenario_data_item :: "scenario \<Rightarrow> py_error + pydict" where
  "scenario_data_item sc =
     (case sc_data sc of None \<Rightarrow> Inl (KeyError ''data'') | Some d \<Rightarrow> Inr d)"

text \<open>
  \<open>int(scenario_data.get('timestamp', '2024-01-01T12:00:00')[11:13])\<close>: subscripting a
  value that is not a string raises \<open>TypeError\<close>.
\<close>

definition timestamp_hour :: "scenario \<Rightarrow> py_error + int" where
  "timestamp_hour sc =
     (case (case sc_timestamp sc of None \<Rightarrow> PStr ''2024-01-01T12:00:00'' | Some t \<Rightarrow> t) of
        PStr s \<Rightarrow> py_int_of_str (take 2 (drop 11 s))
      | _ \<Rightarrow> Inl TypeError)"

subsection \<open>The conditions of the seven rules, as \<open>detect_pattern\<close> evaluates them\<close>

definition cond_efficiency :: "pyval \<Rightarrow> pyval \<Rightarrow> py_error + bool" where
  "cond_efficiency cop outdoor_temp =
     py_and (py_lt cop (PFloat (18 / 10))) (py_gt outdoor_temp (PInt 0))"

definition cond_deficit :: "pydict \<Rightarrow> pyval \<Rightarrow> pyval \<Rightarrow> py_error + bool" where
  "cond_deficit data indoor_temp target_temp =
     py_and (ebind (py_sub target_temp (PFloat 2)) (\<lambda>t. py_lt indoor_temp t))
            (Inr (py_get data ''heat_pump_status'' PNone = PStr ''heating''))"

definition cond_high_power :: "pyval \<Rightarrow> py_error + bool" where
  "cond_high_power power_kw = py_gt power_kw (PFloat (3 * (15 / 10)))"

definition cond_tariff :: "scenario \<Rightarrow> pydict \<Rightarrow> py_error + bool" where
  "cond_tariff sc data =
     ebind (timestamp_hour sc) (\<lambda>hour.
       if 0 \<le> hour \<and> hour \<le> 5
       then py_lt (py_get data ''electricity_price_current'' (PFloat (15 / 100)))
                  (PFloat (12 / 100))
       else Inr False)"

definition cond_vpp :: "pydict \<Rightarrow> pyval \<Rightarrow> pyval \<Rightarrow> py_error + bool" where
  "cond_vpp data indoor_temp target_temp =
     (if truthy (py_get data ''vpp_signal'' PNone) then py_lt indoor_temp target_temp
      else Inr False)"

definition cond_predictive :: "pydict \<Rightarrow> pyval \<Rightarrow> py_error + bool" where
  "cond_predictive data outdoor_temp =
     (if truthy (py_get data ''weather_forecast_temp'' PNone)
      then ebind (py_item data ''weather_forecast_temp'') (\<lambda>w.
             ebind (py_sub outdoor_temp (PInt 5)) (\<lambda>t. py_lt w t))
      else Inr False)"

definition cond_cold_weather :: "pyval \<Rightarrow> pyval \<Rightarrow> py_error + bool" where
  "cond_cold_weather cop outdoor_temp =
     py_and (py_lt outdoor_temp (PInt 0))
            (py_and (py_ge cop (PFloat 2)) (py_lt cop (PFloat (28 / 10))))"

subsection \<open>The classifications the rules build\<close>

definition efficiency_anomaly :: "pyval \<Rightarrow> pyval \<Rightarrow> py_error + pattern" where
  "efficiency_anomaly cop outdoor_temp =
     ebind (py_format_f 1 cop) (\<lambda>c. Inr
       \<lparr>pattern_type = ''efficiency_anomaly'', severity = ''high'', confidence = ''high'',
        trigger = ''COP of '' @ c @ '' is unusually low for '' @ py_str outdoor_temp @ deg @ ''C'',
        is_anomaly = True, category = ''potential_fault''\<rparr>)"

definition temperature_deficit :: "pyval \<Rightarrow> pyval \<Rightarrow> py_error + pattern" where
  "temperature_deficit indoor_temp target_temp =
     ebind (py_sub target_temp indoor_temp) (\<lambda>gap. ebind (py_format_f 1 gap) (\<lambda>g. Inr
       \<lparr>pattern_type = ''temperature_deficit'', severity = ''medium'', confidence = ''high'',
        trigger = ''Indoor temp '' @ py_str indoor_temp @ deg @ ''C is '' @ g @ deg @
                  ''C below target'',
        is_anomaly = True, category = ''performance_issue''\<rparr>))"

definition high_power_consumption :: "pyval \<Rightarrow> py_error + pattern" where
  "high_power_consumption power_kw =
     ebind (py_format_f 1 power_kw) (\<lambda>p. Inr
       \<lparr>pattern_type = ''high_power_consumption'', severity = ''medium'',
        confidence = ''medium'',
        trigger = ''Power usage '' @ p @ ''kW exceeds typical range'',
        is_anomaly = True, category = ''efficiency_concern''\<rparr>)"

definition tariff_optimization :: pattern where
  "tariff_optimization =
     \<lparr>pattern_type = ''tariff_optimization'', severity = ''none'', confidence = ''high'',
      trigger = ''Operating during cheap-rate hours'',
      is_anomaly = False, category = ''smart_behavior''\<rparr>"

definition vpp_curtailment :: pattern where
  "vpp_curtailment =
     \<lparr>pattern_type = ''vpp_curtailment'', severity = ''none'', confidence = ''high'',
      trigger = ''Grid demand response active'',
      is_anomaly = False, category = ''smart_behavior''\<rparr>"

definition predictive_heating :: pattern where
  "predictive_heating =
     \<lparr>pattern_type = ''predictive_heating'', severity = ''none'', confidence = ''high'',
      trigger = ''Pre-heating before forecast cold snap'',
      is_anomaly = False, category = ''smart_behavior''\<rparr>"

definition cold_weather_operation :: "pyval \<Rightarrow> pattern" where
  "cold_weather_operation outdoor_temp =
     \<lparr>pattern_type = ''cold_weather_operation'', severity = ''none'', confidence = ''high'',
      trigger = ''Normal efficiency for '' @ py_str outdoor_temp @ deg @ ''C weather'',
      is_anomaly = False, category = ''normal_operation''\<rparr>"

definition normal_operation :: pattern where
  "normal_operation =
     \<lparr>pattern_type = ''normal_operation'', severity = ''none'', confidence = ''medium'',
      trigger = ''Standard heating operation'',
      is_anomaly = False, category = ''normal_operation''\<rparr>"

subsection \<open>\<open>detect_pattern\<close>\<close>

text \<open>
  The chain of \<open>if ... return\<close> statements, from the first rule down: a condition is
  evaluated only when every earlier one was false, and an exception raised while
  evaluating it ends the call.
\<close>

definition detect_rules ::
  "scenario \<Rightarrow> pydict \<Rightarrow> pyval \<Rightarrow> pyval \<Rightarrow> pyval \<Rightarrow> pyval \<Rightarrow> pyval \<Rightarrow> py_error + pattern" where
  "detect_rules sc data indoor_temp target_temp outdoor_temp cop power_kw =
     ebind (cond_efficiency cop outdoor_temp) (\<lambda>c1.
     if c1 then efficiency_anomaly cop outdoor_temp else
     ebind (cond_deficit data indoor_temp target_temp) (\<lambda>c2.
     if c2 then temperature_deficit indoor_temp target_temp else
     ebind (cond_high_power power_kw) (\<lambda>c3.
     if c3 then high_power_consumption power_kw else
     ebind (cond_tariff sc data) (\<lambda>c4.
     if c4 then Inr tariff_optimization else
     ebind (cond_vpp data indoor_temp target_temp) (\<lambda>c5.
     if c5 then Inr vpp_curtailment else
     ebind (cond_predictive data outdoor_temp) (\<lambda>c6.
     if c6 then Inr predictive_heating else
     ebind (cond_cold_weather cop outdoor_temp) (\<lambda>c7.
     if c7 then Inr (cold_weather_operation outdoor_temp)
     else Inr normal_operation)))))))"

text \<open>
  The fields are read first, in the order of the source: a missing required field raises
  \<open>KeyError\<close> before any rule is evaluated.
\<close>

definition detect_pattern :: "scenario \<Rightarrow> py_error + pattern" where
  "detect_pattern sc =
     ebind (scenario_data_item sc) (\<lambda>data.
     ebind (py_item data ''indoor_temp'') (\<lambda>indoor_temp.
     ebind (Inr (py_get data ''target_temp'' (PFloat 20))) (\<lambda>target_temp.
     ebind (py_item data ''outdoor_temp'') (\<lambda>outdoor_temp.
     ebind (py_item data ''cop'') (\<lambda>cop.
     ebind (py_item data ''power_consumption_kw'') (\<lambda>power_kw.
       detect_rules sc data indoor_temp target_temp outdoor_temp cop power_kw))))))"

section \<open>The benefit estimate\<close>



section \<open>The narrative\<close>











section \<open>The guidance\<close>

record guidance =
  status :: string
  action :: string
  detail :: string
  guidance_confidence :: string
  tier :: string

definition default_guidance :: guidance where
  "default_guidance =
     \<lparr>status = '' This is normal winter behaviour'', action = ''No action needed'',
      detail = ''Your heat pump is operating within expected parameters.'',
      guidance_confidence = ''Probably normal'', tier = ''normal''\<rparr>"

text \<open>\<open>guidance_map\<close>, built in full before the lookup.\<close>

definition guidance_map :: "pyval \<Rightarrow> string \<Rightarrow> string \<Rightarrow> (string \<times> guidance) list" where
  "guidance_map outdoor power_s cop_s =
     [(''tariff_optimization'',
       \<lparr>status = '' This is normal winter behaviour'', action = ''No action needed'',
        detail = ''Your smart tariff is working as designed to minimize costs.'',
        guidance_confidence = ''Definitely normal'', tier = ''normal''\<rparr>),
      (''vpp_curtailment'',
       \<lparr>status = '' This is normal winter behaviour'', action = ''No action needed'',
        detail = ''Your system is helping balance the grid during peak demand. '' @
                 ''Temperature will recover automatically.'',
        guidance_confidence = ''Definitely normal'', tier = ''normal''\<rparr>),
      (''predictive_heating'',
       \<lparr>status = '' This is normal winter behaviour'', action = ''No action needed'',
        detail = ''Your system is optimizing for upcoming weather. '' @
                 ''This is more efficient than reactive heating.'',
        guidance_confidence = ''Definitely normal'', tier = ''normal''\<rparr>),
      (''cold_weather_operation'',
       \<lparr>status = '' This is normal winter behaviour'', action = ''No action needed'',
        detail = ''Heat pumps use more electricity in very cold weather ('' @ py_str outdoor @
                 deg @ ''C), but remain cost-effective.'',
        guidance_confidence = ''Definitely normal'', tier = ''normal''\<rparr>),
      (''temperature_deficit'',
       \<lparr>status = '' Consider checking your insulation'',
        action = ''Check for drafts or poor insulation'',
        detail = ''Your home is struggling to maintain temperature. '' @
                 ''Improving insulation could help your heat pump work more efficiently.'',
        guidance_confidence = ''This might need attention'', tier = ''check''\<rparr>),
      (''high_power_consumption'',
       \<lparr>status = '' Consider checking your insulation'',
        action = ''Review insulation and radiator sizing'',
        detail = ''Power usage ('' @ power_s @
                 ''kW) is higher than typical. Better insulation could reduce this.'',
        guidance_confidence = ''This might need attention'', tier = ''check''\<rparr>),
      (''efficiency_anomaly'',
       \<lparr>status = '' This might indicate a fault'',
        action = ''Book a service check with your installer'',
        detail = ''Efficiency ('' @ cop_s @ '') is lower than expected for '' @ py_str outdoor @
                 deg @ ''C. Could indicate refrigerant levels, sensor issues, '' @
                 ''or airflow problems.'',
        guidance_confidence = ''This might indicate a fault'', tier = ''fault''\<rparr>)]"

definition get_actionable_guidance :: "pattern \<Rightarrow> scenario \<Rightarrow> py_error + guidance" where
  "get_actionable_guidance pat sc =
     ebind (scenario_data_item sc) (\<lambda>data.
     ebind (py_item data ''outdoor_temp'') (\<lambda>outdoor.
     ebind (py_item data ''power_consumption_kw'') (\<lambda>power.
     ebind (py_format_f 1 power) (\<lambda>power_s.
     ebind (py_item data ''cop'') (\<lambda>cop.
     ebind (py_format_f 1 cop) (\<lambda>cop_s.
       Inr (case map_of (guidance_map outdoor power_s cop_s) (pattern_type pat) of
              Some g \<Rightarrow> g
            | None \<Rightarrow> default_guidance)))))))"

section \<open>The transparency report\<close>











section \<open>The analysis\<close>



section \<open>Notions used to state the properties\<close>

subsection \<open>The ordered rule list\<close>



subsection \<open>Validated scenarios\<close>







subsection \<open>Failure of the collaborator\<close>


subsection \<open>Reading results\<close>


definition result_field :: "('a \<Rightarrow> 'b) \<Rightarrow> py_error + 'a \<Rightarrow> py_error + 'b" where
  "result_field f r = ebind r (\<lambda>x. Inr (f x))"




subsection \<open>Example scenarios\<close>

text \<open>
  The priority example of the specification: COP 1.5 at 3.0 degrees outside, taken at 02:00
  with a cheap price.
\<close>

definition priority_data :: pydict where
  "priority_data =
     map_of [(''indoor_temp'', PFloat 19), (''outdoor_temp'', PFloat 3),
             (''cop'', PFloat (15 / 10)), (''power_consumption_kw'', PFloat 2),
             (''electricity_price_current'', PFloat (8 / 100))]"

definition priority_scenario :: scenario where
  "priority_scenario =
     \<lparr>sc_data = Some priority_data, sc_timestamp = Some (PStr ''2024-01-15T02:00:00''),
      sc_name = None, sc_property_profile = None\<rparr>"













text \<open>
  A scenario whose grid signal is the empty string and whose forecast is 0.0 degrees, ten
  degrees below the outdoor temperature, with the house below its target.
\<close>

definition falsy_data :: pydict where
  "falsy_data =
     map_of [(''indoor_temp'', PFloat 19), (''outdoor_temp'', PFloat 10), (''cop'', PFloat 3),
             (''power_consumption_kw'', PFloat 2), (''vpp_signal'', PStr []),
             (''weather_forecast_temp'', PFloat 0)]"

definition falsy_scenario :: scenario where
  "falsy_scenario =
     \<lparr>sc_data = Some falsy_data, sc_timestamp = Some (PStr ''2024-01-15T18:00:00''),
      sc_name = None, sc_property_profile = None\<rparr>"




section \<open>Basic facts\<close>

lemma ebind_Inr [simp]: "ebind (Inr v) f = f v"
  by (simp add: ebind_def)

lemma ebind_Inl [simp]: "ebind (Inl e) f = Inl e"
  by (simp add: ebind_def)

lemma ebind_eq_Inr: "ebind m f = Inr y \<longleftrightarrow> (\<exists>v. m = Inr v \<and> f v = Inr y)"
  by (cases m) simp_all

lemma py_item_Some: "d k = Some v \<Longrightarrow> py_item d k = Inr v"
  by (simp add: py_item_def)

lemma py_item_None: "d k = None \<Longrightarrow> py_item d k = Inl (KeyError k)"
  by (simp add: py_item_def)

lemma num_of_numv: "is_num v \<Longrightarrow> num_of v = Some (numv v)"
  by (auto simp: is_num_def numv_def)

lemma num_of_None: "\<not> is_num v \<Longrightarrow> num_of v = None"
  by (simp add: is_num_def)

lemma is_num_simps [simp]:
  "is_num (PFloat r)" "is_num (PInt i)" "is_num (PBool b)" "\<not> is_num PNone" "\<not> is_num (PStr s)"
  by (simp_all add: is_num_def)

lemma numv_simps [simp]:
  "numv (PFloat r) = r" "numv (PInt i) = of_int i" "numv (PBool b) = (if b then 1 else 0)"
  by (simp_all add: numv_def)






lemma py_format_f_num: "is_num v \<Longrightarrow> py_format_f n v = Inr (fmt_fixed n (numv v))"
  by (cases v) (simp_all add: py_format_f_def)

lemma py_format_f_Inr: "py_format_f n v = Inr s \<Longrightarrow> is_num v \<and> s = fmt_fixed n (numv v)"
  by (cases v) (auto simp: py_format_f_def)

lemma intlike_numv: "is_intlike a \<Longrightarrow> numv a \<in> \<int>"
  by (cases a) simp_all

lemma intlike_is_num: "is_intlike a \<Longrightarrow> is_num a"
  by (cases a) simp_all

lemma py_sub_num:
  assumes "is_num a" "is_num b"
  shows "\<exists>v. py_sub a b = Inr v \<and> is_num v \<and> numv v = numv a - numv b"
proof (cases "is_intlike a \<and> is_intlike b")
  case True
  then have "numv a - numv b \<in> \<int>"
    by (simp add: intlike_numv)
  then have "rat_of_int \<lfloor>numv a - numv b\<rfloor> = numv a - numv b"
    by (rule of_int_floor)
  with True assms show ?thesis
    by (simp add: py_sub_def py_arith_def num_of_numv)
next
  case False
  with assms show ?thesis
    by (auto simp: py_sub_def py_arith_def num_of_numv)
qed


lemma py_arith_Inr: "py_arith f a b = Inr v \<Longrightarrow> is_num a \<and> is_num b"
  by (auto simp: py_arith_def is_num_def split: option.splits)

lemma py_sub_Inr:
  assumes "py_sub a b = Inr v"
  shows "is_num a \<and> is_num b \<and> is_num v \<and> numv v = numv a - numv b"
proof -
  from assms have ab: "is_num a" "is_num b"
    using py_arith_Inr [of "\<lambda>x y. x - y" a b v] by (simp_all add: py_sub_def)
  with py_sub_num [of a b] assms show ?thesis by auto
qed


lemma cascade_cases:
  assumes "ebind c (\<lambda>b. if b then A else B) = Inr p"
  obtains "c = Inr True" "A = Inr p" | "c = Inr False" "B = Inr p"
  using assms by (cases c) (auto split: if_splits)

section \<open>The classifier\<close>

lemma efficiency_anomaly_Inr:
  assumes "efficiency_anomaly cop outdoor = Inr p"
  shows "pattern_type p = ''efficiency_anomaly''"
    and "is_num cop"
    and "trigger p = ''COP of '' @ fmt_fixed 1 (numv cop) @ '' is unusually low for '' @
           py_str outdoor @ deg @ ''C''"
  using assms by (auto simp: efficiency_anomaly_def ebind_eq_Inr dest: py_format_f_Inr)

lemma temperature_deficit_Inr:
  assumes "temperature_deficit indoor target = Inr p"
  shows "pattern_type p = ''temperature_deficit''"
    and "is_num indoor" and "is_num target"
    and "trigger p = ''Indoor temp '' @ py_str indoor @ deg @ ''C is '' @
           fmt_fixed 1 (numv target - numv indoor) @ deg @ ''C below target''"
  using assms
  by (auto simp: temperature_deficit_def ebind_eq_Inr dest!: py_format_f_Inr py_sub_Inr)

lemma high_power_consumption_Inr:
  assumes "high_power_consumption power_kw = Inr p"
  shows "pattern_type p = ''high_power_consumption''"
    and "is_num power_kw"
    and "trigger p = ''Power usage '' @ fmt_fixed 1 (numv power_kw) @ ''kW exceeds typical range''"
  using assms by (auto simp: high_power_consumption_def ebind_eq_Inr dest: py_format_f_Inr)

lemma detect_pattern_fields:
  assumes "sc_data sc = Some data" "data ''indoor_temp'' = Some indoor"
    "data ''outdoor_temp'' = Some outdoor" "data ''cop'' = Some cop"
    "data ''power_consumption_kw'' = Some power_kw"
  shows "detect_pattern sc =
         detect_rules sc data indoor (py_get data ''target_temp'' (PFloat 20)) outdoor cop power_kw"
  using assms by (simp add: detect_pattern_def scenario_data_item_def py_item_Some)

text \<open>What a successful run of the rule chain returns, rule by rule.\<close>

lemma cascade_split:
  "ebind c (\<lambda>b. if b then A else B) = Inr p \<longleftrightarrow>
     (c = Inr True \<and> A = Inr p) \<or> (c = Inr False \<and> B = Inr p)"
  by (cases c) auto

lemma detect_rules_cases:
  assumes "detect_rules sc data indoor target outdoor cop power_kw = Inr p"
  obtains
    (eff) "cond_efficiency cop outdoor = Inr True" "efficiency_anomaly cop outdoor = Inr p"
  | (deficit) "cond_efficiency cop outdoor = Inr False"
      "cond_deficit data indoor target = Inr True" "temperature_deficit indoor target = Inr p"
  | (high) "cond_efficiency cop outdoor = Inr False" "cond_deficit data indoor target = Inr False"
      "cond_high_power power_kw = Inr True" "high_power_consumption power_kw = Inr p"
  | (tariff) "cond_efficiency cop outdoor = Inr False" "cond_deficit data indoor target = Inr False"
      "cond_high_power power_kw = Inr False" "cond_tariff sc data = Inr True"
      "p = tariff_optimization"
  | (vpp) "cond_efficiency cop outdoor = Inr False" "cond_deficit data indoor target = Inr False"
      "cond_high_power power_kw = Inr False" "cond_tariff sc data = Inr False"
      "cond_vpp data indoor target = Inr True" "p = vpp_curtailment"
  | (predictive) "cond_efficiency cop outdoor = Inr False"
      "cond_deficit data indoor target = Inr False"
      "cond_high_power power_kw = Inr False" "cond_tariff sc data = Inr False"
      "cond_vpp data indoor target = Inr False" "cond_predictive data outdoor = Inr True"
      "p = predictive_heating"
  | (cold) "cond_efficiency cop outdoor = Inr False" "cond_deficit data indoor target = Inr False"
      "cond_high_power power_kw = Inr False" "cond_tariff sc data = Inr False"
      "cond_vpp data indoor target = Inr False" "cond_predictive data outdoor = Inr False"
      "cond_cold_weather cop outdoor = Inr True" "p = cold_weather_operation outdoor"
  | (normal) "cond_efficiency cop outdoor = Inr False" "cond_deficit data indoor target = Inr False"
      "cond_high_power power_kw = Inr False" "cond_tariff sc data = Inr False"
      "cond_vpp data indoor target = Inr False" "cond_predictive data outdoor = Inr False"
      "cond_cold_weather cop outdoor = Inr False" "p = normal_operation"
proof -
  note h = assms [unfolded detect_rules_def cascade_split sum.inject]
  from h show thesis
  proof (elim disjE conjE)
    assume "cond_efficiency cop outdoor = Inr True" "efficiency_anomaly cop outdoor = Inr p"
    then show thesis by (rule eff)
  next
    assume "cond_efficiency cop outdoor = Inr False"
      "cond_deficit data indoor target = Inr True" "temperature_deficit indoor target = Inr p"
    then show thesis by (rule deficit)
  next
    assume "cond_efficiency cop outdoor = Inr False" "cond_deficit data indoor target = Inr False"
      "cond_high_power power_kw = Inr True" "high_power_consumption power_kw = Inr p"
    then show thesis by (rule high)
  next
    assume "cond_efficiency cop outdoor = Inr False" "cond_deficit data indoor target = Inr False"
      "cond_high_power power_kw = Inr False" "cond_tariff sc data = Inr True"
      "tariff_optimization = p"
    then show thesis using tariff by simp
  next
    assume "cond_efficiency cop outdoor = Inr False" "cond_deficit data indoor target = Inr False"
      "cond_high_power power_kw = Inr False" "cond_tariff sc data = Inr False"
      "cond_vpp data indoor target = Inr True" "vpp_curtailment = p"
    then show thesis using vpp by simp
  next
    assume "cond_efficiency cop outdoor = Inr False" "cond_deficit data indoor target = Inr False"
      "cond_high_power power_kw = Inr False" "cond_tariff sc data = Inr False"
      "cond_vpp data indoor target = Inr False" "cond_predictive data outdoor = Inr True"
      "predictive_heating = p"
    then show thesis using predictive by simp
  next
    assume "cond_efficiency cop outdoor = Inr False" "cond_deficit data indoor target = Inr False"
      "cond_high_power power_kw = Inr False" "cond_tariff sc data = Inr False"
      "cond_vpp data indoor target = Inr False" "cond_predictive data outdoor = Inr False"
      "cond_cold_weather cop outdoor = Inr True" "cold_weather_operation outdoor = p"
    then show thesis using cold by simp
  next
    assume "cond_efficiency cop outdoor = Inr False" "cond_deficit data indoor target = Inr False"
      "cond_high_power power_kw = Inr False" "cond_tariff sc data = Inr False"
      "cond_vpp data indoor target = Inr False" "cond_predictive data outdoor = Inr False"
      "cond_cold_weather cop outdoor = Inr False" "normal_operation = p"
    then show thesis using normal by simp
  qed
qed

lemma pattern_type_simps [simp]:
  "pattern_type tariff_optimization = ''tariff_optimization''"
  "pattern_type vpp_curtailment = ''vpp_curtailment''"
  "pattern_type predictive_heating = ''predictive_heating''"
  "pattern_type (cold_weather_operation outdoor) = ''cold_weather_operation''"
  "pattern_type normal_operation = ''normal_operation''"
  by (simp_all add: tariff_optimization_def vpp_curtailment_def predictive_heating_def
        cold_weather_operation_def normal_operation_def)






lemma trigger_simps [simp]:
  "trigger tariff_optimization = ''Operating during cheap-rate hours''"
  "trigger vpp_curtailment = ''Grid demand response active''"
  "trigger predictive_heating = ''Pre-heating before forecast cold snap''"
  "trigger (cold_weather_operation outdoor) =
     ''Normal efficiency for '' @ py_str outdoor @ deg @ ''C weather''"
  "trigger normal_operation = ''Standard heating operation''"
  by (simp_all add: tariff_optimization_def vpp_curtailment_def predictive_heating_def
        cold_weather_operation_def normal_operation_def)





section \<open>Truth value tests of the optional fields\<close>

lemma cond_vpp_falsy:
  "data ''vpp_signal'' = Some v \<Longrightarrow> \<not> truthy v \<Longrightarrow> cond_vpp data indoor target = Inr False"
  by (simp add: cond_vpp_def py_get_def)

lemma cond_predictive_falsy:
  "data ''weather_forecast_temp'' = Some w \<Longrightarrow> \<not> truthy w \<Longrightarrow>
   cond_predictive data outdoor = Inr False"
  by (simp add: cond_predictive_def py_get_def)

lemma detect_rules_not_vpp:
  assumes "detect_rules sc data indoor target outdoor cop power_kw = Inr p"
    and "cond_vpp data indoor target = Inr False"
  shows "pattern_type p \<noteq> ''vpp_curtailment''"
  using assms
  by (cases rule: detect_rules_cases)
     (simp_all add: efficiency_anomaly_Inr(1) temperature_deficit_Inr(1)
        high_power_consumption_Inr(1))

lemma detect_rules_not_predictive:
  assumes "detect_rules sc data indoor target outdoor cop power_kw = Inr p"
    and "cond_predictive data outdoor = Inr False"
  shows "pattern_type p \<noteq> ''predictive_heating''"
  using assms
  by (cases rule: detect_rules_cases)
     (simp_all add: efficiency_anomaly_Inr(1) temperature_deficit_Inr(1)
        high_power_consumption_Inr(1))

text \<open>
  C10. The classifier tests \<open>vpp_signal\<close> and \<open>weather_forecast_temp\<close> by their truth
  value. For a scenario with the four required fields: when \<open>vpp_signal\<close> is present with
  a value that counts as false (the empty string, 0, \<open>None\<close>, \<open>False\<close>), the condition of
  the \<open>vpp_curtailment\<close> rule is false and no classification is \<open>vpp_curtailment\<close>; when
  \<open>weather_forecast_temp\<close> is present with such a value (0.0), the condition of the
  \<open>predictive_heating\<close> rule is false and no classification is \<open>predictive_heating\<close>,
  whatever the temperatures are.
\<close>

theorem optional_fields_tested_by_truth_value:
  assumes "sc_data sc = Some data" "data ''indoor_temp'' = Some indoor"
    "data ''outdoor_temp'' = Some outdoor" "data ''cop'' = Some cop"
    "data ''power_consumption_kw'' = Some power_kw"
  shows "(\<forall>v. data ''vpp_signal'' = Some v \<and> \<not> truthy v \<longrightarrow>
            cond_vpp data indoor (py_get data ''target_temp'' (PFloat 20)) = Inr False \<and>
            (\<forall>p. detect_pattern sc = Inr p \<longrightarrow> pattern_type p \<noteq> ''vpp_curtailment'')) \<and>
         (\<forall>w. data ''weather_forecast_temp'' = Some w \<and> \<not> truthy w \<longrightarrow>
            cond_predictive data outdoor = Inr False \<and>
            (\<forall>p. detect_pattern sc = Inr p \<longrightarrow> pattern_type p \<noteq> ''predictive_heating''))"
  using assms
  by (auto simp: detect_pattern_fields cond_vpp_falsy cond_predictive_falsy
      dest: detect_rules_not_vpp detect_rules_not_predictive)

theorem optional_fields_tested_by_truth_value_witness:
  "falsy_data ''vpp_signal'' = Some (PStr []) \<and> \<not> truthy (PStr []) \<and>
   py_lt (PFloat 19) (py_get falsy_data ''target_temp'' (PFloat 20)) = Inr True \<and>
   falsy_data ''weather_forecast_temp'' = Some (PFloat 0) \<and> \<not> truthy (PFloat 0) \<and>
   ebind (py_sub (PFloat 10) (PInt 5)) (\<lambda>t. py_lt (PFloat 0) t) = Inr True \<and>
   cond_vpp falsy_data (PFloat 19) (py_get falsy_data ''target_temp'' (PFloat 20)) = Inr False \<and>
   cond_predictive falsy_data (PFloat 10) = Inr False \<and>
   result_field pattern_type (detect_pattern falsy_scenario) = Inr ''normal_operation''"
proof -
  have f: "sc_data falsy_scenario = Some falsy_data"
    "falsy_data ''indoor_temp'' = Some (PFloat 19)"
    "falsy_data ''outdoor_temp'' = Some (PFloat 10)"
    "falsy_data ''cop'' = Some (PFloat 3)"
    "falsy_data ''power_consumption_kw'' = Some (PFloat 2)"
    by (simp_all add: falsy_scenario_def falsy_data_def)
  have v: "falsy_data ''vpp_signal'' = Some (PStr [])" "\<not> truthy (PStr [])"
    "falsy_data ''weather_forecast_temp'' = Some (PFloat 0)" "\<not> truthy (PFloat 0)"
    by (simp_all add: falsy_data_def)
  have s: "py_lt (PFloat 19) (py_get falsy_data ''target_temp'' (PFloat 20)) = Inr True"
    "ebind (py_sub (PFloat 10) (PInt 5)) (\<lambda>t. py_lt (PFloat 0) t) = Inr True"
    "result_field pattern_type (detect_pattern falsy_scenario) = Inr ''normal_operation''"
    by code_simp+
  from optional_fields_tested_by_truth_value [OF f] v s show ?thesis
    by blast
qed

section \<open>The guidance tier\<close>

text \<open>
  C9. The tier is a function of \<open>pattern_type\<close> alone and one of \<open>normal\<close>, \<open>check\<close>,
  \<open>fault\<close>. For a snapshot with \<open>outdoor_temp\<close> and numeric \<open>power_consumption_kw\<close> and
  \<open>cop\<close>, \<open>get_actionable_guidance\<close> returns a record whose tier is \<open>fault\<close> for
  \<open>efficiency_anomaly\<close>, \<open>check\<close> for \<open>temperature_deficit\<close> and
  \<open>high_power_consumption\<close>, and \<open>normal\<close> for every other \<open>pattern_type\<close>; a
  \<open>pattern_type\<close> that is not in the table gets the default entry.
\<close>

theorem guidance_tier_by_pattern_type:
  assumes "sc_data sc = Some data" "data ''outdoor_temp'' = Some outdoor"
    "data ''power_consumption_kw'' = Some power_kw" "data ''cop'' = Some cop"
    "is_num power_kw" "is_num cop"
  shows "\<exists>g. get_actionable_guidance pat sc = Inr g \<and>
           tier g \<in> {''normal'', ''check'', ''fault''} \<and>
           tier g =
             (if pattern_type pat = ''efficiency_anomaly'' then ''fault''
              else if pattern_type pat \<in> {''temperature_deficit'', ''high_power_consumption''}
              then ''check'' else ''normal'') \<and>
           (pattern_type pat \<notin> {''tariff_optimization'', ''vpp_curtailment'',
               ''predictive_heating'', ''cold_weather_operation'', ''temperature_deficit'',
               ''high_power_consumption'', ''efficiency_anomaly''} \<longrightarrow>
            g = default_guidance)"
  using assms
  by (simp add: get_actionable_guidance_def scenario_data_item_def py_item_Some
        py_format_f_num guidance_map_def default_guidance_def)

theorem guidance_tier_by_pattern_type_witness:
  "result_field tier (get_actionable_guidance normal_operation priority_scenario) = Inr ''normal'' \<and>
   get_actionable_guidance normal_operation priority_scenario = Inr default_guidance \<and>
   result_field tier (get_actionable_guidance (cold_weather_operation (PFloat 3)) priority_scenario)
     = Inr ''normal''"
proof -
  have f: "sc_data priority_scenario = Some priority_data"
    "priority_data ''outdoor_temp'' = Some (PFloat 3)"
    "priority_data ''power_consumption_kw'' = Some (PFloat 2)"
    "priority_data ''cop'' = Some (PFloat (15 / 10))"
    "is_num (PFloat 2)" "is_num (PFloat (15 / 10))"
    by (simp_all add: priority_scenario_def priority_data_def)
  from guidance_tier_by_pattern_type [OF f, of normal_operation]
    guidance_tier_by_pattern_type [OF f, of "cold_weather_operation (PFloat 3)"]
  show ?thesis
    by (auto simp: result_field_def)
qed

section \<open>The benefit estimate\<close>

lemma round_half_even_nonneg_ge_floor: "\<lfloor>x\<rfloor> \<le> round_half_even_nonneg x"
  by (simp add: round_half_even_nonneg_def Let_def)



lemma round_half_even_nonneg: "0 \<le> x \<Longrightarrow> 0 \<le> round_half_even x"
  using round_half_even_nonneg_ge_floor [of x]
  by (simp add: round_half_even_def) linarith























section \<open>Validated scenarios are analysed without an exception\<close>





lemma py_and_Inr [simp]: "py_and (Inr a) (Inr b) = Inr (a \<and> b)"
  by (simp add: py_and_def)












section \<open>Counting words\<close>










subsection \<open>Printed numbers contain no white space\<close>













section \<open>The narrative\<close>







section \<open>The guidance and the report of a validated scenario\<close>









section \<open>The analysis of a validated scenario\<close>








section \<open>The narrative of an analysis\<close>






section \<open>The prices in the report of a tariff analysis\<close>








end
